theory Spec2Isabelle
  imports Main
begin

section \<open>Exceptions\<close>

text \<open>
  Every exception the modelled functions can raise is a value. The string carried by a
  constructor is the exception's message (for \<open>NameError\<close> and \<open>UnboundLocalError\<close>
  the name that could not be resolved).
  \<^item> \<open>CommandAlreadyExists\<close>, \<open>Unauthorized\<close>: classes of \<^verbatim>\<open>wyvern.exceptions\<close>;
  \<^item> \<open>ValueError\<close>, \<open>PyException\<close> (Python's \<^verbatim>\<open>Exception\<close>), \<open>NameError\<close>,
    \<open>UnboundLocalError\<close>: builtin classes;
  \<^item> \<open>OtherError\<close>: any exception raised by a collaborator that is none of the above.
\<close>

datatype exception =
    CommandAlreadyExists string
  | Unauthorized string
  | ValueError string
  | PyException string
  | NameError string
  | UnboundLocalError string
  | OtherError string

section \<open>clients.py: the slash command registries of \<open>CommandsClient\<close>\<close>

text \<open>
  \<^verbatim>\<open>SlashCommand\<close> and \<^verbatim>\<open>SlashGroup\<close> are declared in \<^verbatim>\<open>wyvern.commands\<close>; the
  client reads only their \<^verbatim>\<open>name\<close>. The remaining fields are the extension part of the
  record scheme.
\<close>

record SlashCommand =
  name :: string

record SlashGroup =
  group_name :: string

text \<open>
  The kinds \<^verbatim>\<open>set_prefix\<close> stores in \<^verbatim>\<open>self.prefix_type\<close> are class objects:
  \<^verbatim>\<open>str\<close>, \<^verbatim>\<open>list\<close>, \<^verbatim>\<open>tuple\<close>, \<^verbatim>\<open>set\<close> or (as written in the source)
  \<^verbatim>\<open>function\<close>. \<open>T_global n\<close> is any other object, reached through the name \<open>n\<close>.
\<close>

datatype py_type = T_str | T_list | T_tuple | T_set | T_function | T_global string

text \<open>
  The part of a \<^verbatim>\<open>CommandsClient\<close> the registration methods touch: the two
  dictionaries, the recorded prefix kind (the attribute does not exist before
  \<^verbatim>\<open>set_prefix\<close> assigns it) and the lines sent to the module logger at debug level.
\<close>

record CommandsClient =
  slash_commands :: "string \<rightharpoonup> SlashCommand"
  slash_groups :: "string \<rightharpoonup> SlashGroup"
  prefix_type :: "py_type option"
  debug_log :: "string list"

text \<open>
  A method call returns the outcome (\<open>Inl\<close> the exception raised, \<open>Inr\<close> the value
  returned) together with the client as the call leaves it, so that what a raising call
  did to the client before raising is part of the model.
\<close>

type_synonym 'a outcome = "(exception + 'a) \<times> CommandsClient"

definition add_slash_command :: "CommandsClient \<Rightarrow> SlashCommand \<Rightarrow> unit outcome" where
  "add_slash_command self command =
     (let n = name command in
      if n \<in> dom (slash_commands self)
      then (Inl (CommandAlreadyExists (''A slash command named '' @ n @ '' already exists.'')), self)
      else (Inr (),
            self\<lparr>debug_log := debug_log self @ [''Adding slash command '' @ n @ '' to bot.''],
                 slash_commands := (slash_commands self)(n \<mapsto> command)\<rparr>))"

definition add_slash_group :: "CommandsClient \<Rightarrow> SlashGroup \<Rightarrow> unit outcome" where
  "add_slash_group self grp =
     (let n = group_name grp in
      if n \<in> dom (slash_groups self)
      then (Inl (CommandAlreadyExists (''A slash command named '' @ n @ '' already exists.'')), self)
      else (Inr (),
            self\<lparr>debug_log := debug_log self @ [''Adding slash group '' @ n @ '' to bot.''],
                 slash_groups := (slash_groups self)(n \<mapsto> grp)\<rparr>))"

text \<open>A client with empty registries, as the class body creates them.\<close>

definition new_client :: CommandsClient where
  "new_client = \<lparr>slash_commands = Map.empty, slash_groups = Map.empty,
                  prefix_type = None, debug_log = []\<rparr>"

text \<open>
  \<^verbatim>\<open>set_prefix\<close> dispatches on the runtime class of its argument. The argument is a
  string, a list, tuple or set of strings, a callable (a function or coroutine function,
  opaque here), or a value of any other class.
\<close>

datatype 'f prefix_value =
    StrPrefix string
  | ListPrefix "string list"
  | TuplePrefix "string list"
  | SetPrefix "string set"
  | Callable 'f
  | OtherValue

text \<open>
  Every bare name in the body of \<^verbatim>\<open>set_prefix\<close> other than its parameters is looked
  up at run time in the module namespace of \<^verbatim>\<open>clients.py\<close> and then in Python's
  builtins. \<open>clients_globals\<close> lists what the module binds: its imports
  (\<^verbatim>\<open>aiohttp\<close> is imported under \<^verbatim>\<open>typing.TYPE_CHECKING\<close> only), \<^verbatim>\<open>_LOGGER\<close>,
  \<^verbatim>\<open>__all__\<close> and the two classes. \<open>builtin_classes\<close> gives the builtin classes the
  method names; Python has no builtin called \<^verbatim>\<open>function\<close>, and the parameter annotation
  that mentions it is never evaluated (\<^verbatim>\<open>from __future__ import annotations\<close>).
\<close>

definition clients_globals :: "string list" where
  "clients_globals =
     [''annotations'', ''asyncio'', ''logging'', ''typing'', ''commands'', ''events'',
      ''exceptions'', ''gateway'', ''interactions'', ''models'', ''presences'', ''rest'',
      ''state_handlers'', ''ux'', ''_intents'', ''_LOGGER'', ''__all__'',
      ''GatewayClient'', ''CommandsClient'']"

definition builtin_classes :: "(string \<times> py_type) list" where
  "builtin_classes = [(''str'', T_str), (''list'', T_list), (''tuple'', T_tuple), (''set'', T_set)]"

definition load_name :: "string \<Rightarrow> exception + py_type" where
  "load_name n =
     (if n \<in> set clients_globals then Inr (T_global n)
      else case map_of builtin_classes n of
             Some t \<Rightarrow> Inr t
           | None \<Rightarrow> Inl (NameError n))"

fun isinstance :: "'f prefix_value \<Rightarrow> py_type \<Rightarrow> bool" where
  "isinstance (StrPrefix _) T_str = True"
| "isinstance (ListPrefix _) T_list = True"
| "isinstance (TuplePrefix _) T_tuple = True"
| "isinstance (SetPrefix _) T_set = True"
| "isinstance (Callable _) T_function = True"
| "isinstance _ _ = False"

text \<open>\<^verbatim>\<open>type(x)\<close>; for a callable or another value the class is not one the model names.\<close>

fun type_of :: "'f prefix_value \<Rightarrow> py_type" where
  "type_of (StrPrefix _) = T_str"
| "type_of (ListPrefix _) = T_list"
| "type_of (TuplePrefix _) = T_tuple"
| "type_of (SetPrefix _) = T_set"
| "type_of (Callable _) = T_function"
| "type_of OtherValue = T_global ''object''"

text \<open>
  \<^verbatim>\<open>isinstance(x, C)\<close> with \<open>C\<close> a bare name: the name is loaded first, and a failed
  load raises before \<^verbatim>\<open>isinstance\<close> is called.
\<close>

definition isinstance_named :: "'f prefix_value \<Rightarrow> string \<Rightarrow> exception + bool" where
  "isinstance_named x n = (case load_name n of Inl e \<Rightarrow> Inl e | Inr c \<Rightarrow> Inr (isinstance x c))"

text \<open>
  \<^verbatim>\<open>set_prefix\<close>: the \<^verbatim>\<open>if\<close>/\<^verbatim>\<open>elif\<close> chain in source order, \<^verbatim>\<open>or\<close>
  short-circuiting from the left. The value returned is \<^verbatim>\<open>self\<close>, the client as the
  call leaves it.
\<close>

definition assign_prefix_type :: "CommandsClient \<Rightarrow> py_type \<Rightarrow> CommandsClient outcome" where
  "assign_prefix_type self t = (let self' = self\<lparr>prefix_type := Some t\<rparr> in (Inr self', self'))"

definition set_prefix :: "CommandsClient \<Rightarrow> 'f prefix_value \<Rightarrow> CommandsClient outcome" where
  "set_prefix self prefix_or_function =
     (case isinstance_named prefix_or_function ''str'' of
        Inl e \<Rightarrow> (Inl e, self)
      | Inr True \<Rightarrow>
          (case load_name ''str'' of Inl e \<Rightarrow> (Inl e, self) | Inr t \<Rightarrow> assign_prefix_type self t)
      | Inr False \<Rightarrow>
     (case isinstance_named prefix_or_function ''list'' of
        Inl e \<Rightarrow> (Inl e, self)
      | Inr True \<Rightarrow> assign_prefix_type self (type_of prefix_or_function)
      | Inr False \<Rightarrow>
     (case isinstance_named prefix_or_function ''tuple'' of
        Inl e \<Rightarrow> (Inl e, self)
      | Inr True \<Rightarrow> assign_prefix_type self (type_of prefix_or_function)
      | Inr False \<Rightarrow>
     (case isinstance_named prefix_or_function ''set'' of
        Inl e \<Rightarrow> (Inl e, self)
      | Inr True \<Rightarrow> assign_prefix_type self (type_of prefix_or_function)
      | Inr False \<Rightarrow>
     (case isinstance_named prefix_or_function ''function'' of
        Inl e \<Rightarrow> (Inl e, self)
      | Inr True \<Rightarrow>
          (case load_name ''function'' of Inl e \<Rightarrow> (Inl e, self) | Inr t \<Rightarrow> assign_prefix_type self t)
      | Inr False \<Rightarrow> (Inr self, self))))))"

section \<open>clients.py: \<open>GatewayClient.start\<close>\<close>

text \<open>
  What an awaited call of a collaborator does: it returns a value, raises, or never
  completes (the gateway's listen loop is meant to run for the life of the process).
\<close>

datatype 'a awaited = Returns 'a | Raises exception | Pending

record User =
  user_id :: int
  username :: string

datatype lifecycle_event = STARTING | STARTED

datatype log_line =
    Logging_in
  | Logged_in
  | Session_info int string

text \<open>
  The gateway, the REST client, the event handler and the HTTP session are not part of
  the source at hand; \<^verbatim>\<open>start\<close> is modelled over what they do when called:
  \<^item> \<open>dispatch\<close>: \<^verbatim>\<open>self.event_handler.dispatch(event, self)\<close>, a plain call, with the
    exception it raises, if any;
  \<^item> \<open>get_socket_ready\<close>: \<^verbatim>\<open>await self.gateway._get_socket_ready()\<close>;
  \<^item> \<open>fetch_client_user\<close>: \<^verbatim>\<open>await self.rest.fetch_client_user()\<close>;
  \<^item> \<open>listen_gateway\<close>: \<^verbatim>\<open>await self.gateway.listen_gateway()\<close>.
  Closing the HTTP session is taken to succeed.
\<close>

record collaborators =
  dispatch :: "lifecycle_event \<Rightarrow> exception option"
  get_socket_ready :: "unit awaited"
  fetch_client_user :: "User awaited"
  listen_gateway :: "unit awaited"

text \<open>
  The state \<^verbatim>\<open>start\<close> reads and writes: \<^verbatim>\<open>self._client_id\<close>, the activity and
  status stored on the gateway, whether \<^verbatim>\<open>self.rest._session\<close> has been closed, the
  events handed to the event handler and the lines logged at info level.
\<close>

record ('a, 's) GatewayClient =
  client_id :: int
  start_activity :: "'a option"
  start_status :: "'s option"
  session_closed :: bool
  dispatched :: "lifecycle_event list"
  info_log :: "log_line list"

text \<open>\<^verbatim>\<open>except exceptions.Unauthorized\<close> matches instances of that class.\<close>

fun is_Unauthorized :: "exception \<Rightarrow> bool" where
  "is_Unauthorized (Unauthorized _) = True"
| "is_Unauthorized _ = False"

text \<open>
  The \<^verbatim>\<open>except\<close> clause of \<^verbatim>\<open>start\<close>, applied to an exception that leaves the
  \<^verbatim>\<open>try\<close> block: an \<^verbatim>\<open>Unauthorized\<close> closes the session and is raised again, any
  other exception passes through.
\<close>

definition except_Unauthorized ::
  "exception \<Rightarrow> ('a, 's) GatewayClient \<Rightarrow> unit awaited \<times> ('a, 's) GatewayClient" where
  "except_Unauthorized e self =
     (if is_Unauthorized e then (Raises e, self\<lparr>session_closed := True\<rparr>) else (Raises e, self))"

text \<open>
  The body of the \<^verbatim>\<open>try\<close> block of \<^verbatim>\<open>start\<close>, with the handler applied to whatever
  it raises.
\<close>

definition start_guarded ::
  "collaborators \<Rightarrow> ('a, 's) GatewayClient \<Rightarrow> unit awaited \<times> ('a, 's) GatewayClient" where
  "start_guarded env self =
     (case fetch_client_user env of
        Raises e \<Rightarrow> except_Unauthorized e self
      | Pending \<Rightarrow> (Pending, self)
      | Returns res \<Rightarrow>
          (let self1 = self\<lparr>info_log := info_log self @ [Logged_in, Session_info (user_id res) (username res)],
                             client_id := user_id res\<rparr>;
               self2 = self1\<lparr>dispatched := dispatched self1 @ [STARTED]\<rparr>
           in case dispatch env STARTED of
                Some e \<Rightarrow> except_Unauthorized e self2
              | None \<Rightarrow>
                  (case listen_gateway env of
                     Raises e \<Rightarrow> except_Unauthorized e self2
                   | Pending \<Rightarrow> (Pending, self2)
                   | Returns u \<Rightarrow> (Returns (), self2))))"

text \<open>
  \<^verbatim>\<open>start\<close>: \<^verbatim>\<open>_listeners_setups\<close> has an empty body; the \<^verbatim>\<open>STARTING\<close> dispatch,
  the two assignments on the gateway and the wait for the socket come before the
  \<^verbatim>\<open>try\<close> block.
\<close>

definition start ::
  "collaborators \<Rightarrow> 'a option \<Rightarrow> 's option \<Rightarrow> ('a, 's) GatewayClient
     \<Rightarrow> unit awaited \<times> ('a, 's) GatewayClient" where
  "start env activity status self =
     (let self1 = self\<lparr>dispatched := dispatched self @ [STARTING]\<rparr>
      in case dispatch env STARTING of
           Some e \<Rightarrow> (Raises e, self1)
         | None \<Rightarrow>
             (let self2 = self1\<lparr>start_activity := activity, start_status := status\<rparr>
              in case get_socket_ready env of
                   Raises e \<Rightarrow> (Raises e, self2)
                 | Pending \<Rightarrow> (Pending, self2)
                 | Returns u \<Rightarrow> start_guarded env (self2\<lparr>info_log := info_log self2 @ [Logging_in]\<rparr>)))"

text \<open>
  Whether a call of \<^verbatim>\<open>start\<close> gets as far as its \<^verbatim>\<open>try\<close> block: the \<^verbatim>\<open>STARTING\<close>
  dispatch and the wait for the socket have both returned.
\<close>

definition reaches_try :: "collaborators \<Rightarrow> bool" where
  "reaches_try env = (dispatch env STARTING = None \<and> get_socket_ready env = Returns ())"

section \<open>extensions/tasks.py\<close>

text \<open>
  Python values that are passed to a task's callback or written into a payload.
\<close>

datatype pyval = PyNone | PyBool bool | PyInt int | PyStr string

text \<open>
  A \<^verbatim>\<open>Task\<close>. The callback is opaque (\<open>'f\<close>). Delays are Python integers here: the
  arithmetic of the builder on \<^verbatim>\<open>float\<close> values is not modelled.
\<close>

record 'f Task =
  trigger :: 'f
  delay :: int
  wait_until_complete :: bool
  is_running :: bool

definition update_delay :: "'f Task \<Rightarrow> int \<Rightarrow> 'f Task" where
  "update_delay self d = self\<lparr>delay := d\<rparr>"

text \<open>
  \<^verbatim>\<open>_runner\<close> is a coroutine: it runs from one suspension point to the next. A runner is
  \<^item> \<open>Scheduled\<close>: created by \<^verbatim>\<open>loop.create_task\<close>, not yet resumed by the event loop;
  \<^item> \<open>Awaiting\<close>: suspended in \<^verbatim>\<open>await self.trigger(...)\<close>;
  \<^item> \<open>Sleeping\<close>: suspended in \<^verbatim>\<open>await asyncio.sleep(self.delay)\<close>;
  \<^item> \<open>Finished\<close>: the \<^verbatim>\<open>while\<close> condition was false and the coroutine returned;
  \<^item> \<open>Failed\<close>: an awaited callback raised, which ends the coroutine.
  It keeps the arguments it was called with: \<^verbatim>\<open>*args\<close> and \<^verbatim>\<open>**kwargs\<close>.
\<close>

datatype runner_pc = Scheduled | Awaiting | Sleeping | Finished | Failed

record runner =
  pc :: runner_pc
  r_args :: "pyval list"
  r_kwargs :: "(string \<times> pyval) list"

text \<open>One call \<^verbatim>\<open>self.trigger(*args, **kwargs)\<close> made by a runner.\<close>

record invocation =
  inv_args :: "pyval list"
  inv_kwargs :: "(string \<times> pyval) list"
  inv_awaited :: bool

text \<open>
  The task together with the event loop: the runners created so far, in creation order,
  and the calls of the callback made so far, oldest first.
\<close>

record 'f world =
  the_task :: "'f Task"
  runners :: "runner list"
  invocations :: "invocation list"

text \<open>
  Calling \<^verbatim>\<open>self._runner(p1, ..., k1=v1, ...)\<close> creates a coroutine whose \<^verbatim>\<open>args\<close> are
  the positional arguments and whose \<^verbatim>\<open>kwargs\<close> are the keyword arguments.
\<close>

definition new_runner :: "pyval list \<Rightarrow> (string \<times> pyval) list \<Rightarrow> runner" where
  "new_runner positional keyword = \<lparr>pc = Scheduled, r_args = positional, r_kwargs = keyword\<rparr>"

text \<open>
  Unpacking a dictionary with a single star, \<^verbatim>\<open>*kwargs\<close>, iterates over it: it yields
  the keys, in insertion order, as positional arguments.
\<close>

definition star :: "(string \<times> pyval) list \<Rightarrow> pyval list" where
  "star kwargs = map (\<lambda>kv. PyStr (fst kv)) kwargs"

text \<open>
  \<^verbatim>\<open>run\<close>: the call in the source is \<^verbatim>\<open>self._runner(*args, *kwargs)\<close>, with no keyword
  arguments.
\<close>

definition run ::
  "'f world \<Rightarrow> pyval list \<Rightarrow> (string \<times> pyval) list \<Rightarrow> (exception + unit) \<times> 'f world" where
  "run w args kwargs =
     (if \<not> is_running (the_task w)
      then (Inr (),
            w\<lparr>the_task := (the_task w)\<lparr>is_running := True\<rparr>,
              runners := runners w @ [new_runner (args @ star kwargs) []]\<rparr>)
      else (Inl (PyException ''The task is already running.''), w))"

definition stop :: "'f world \<Rightarrow> 'f world" where
  "stop w = w\<lparr>the_task := (the_task w)\<lparr>is_running := False\<rparr>\<rparr>"

text \<open>
  The head of the \<^verbatim>\<open>while\<close> loop, where runner \<open>i\<close> is when it is first resumed and
  when its sleep has completed. It reads the flag; if set, it calls the callback and
  either hands the coroutine to the loop and goes to sleep, or awaits it.
\<close>

definition call_trigger :: "runner \<Rightarrow> bool \<Rightarrow> invocation" where
  "call_trigger r aw = \<lparr>inv_args = r_args r, inv_kwargs = r_kwargs r, inv_awaited = aw\<rparr>"

definition loop_head :: "'f world \<Rightarrow> nat \<Rightarrow> 'f world" where
  "loop_head w i =
     (let r = runners w ! i in
      if is_running (the_task w)
      then (if \<not> wait_until_complete (the_task w)
            then w\<lparr>invocations := invocations w @ [call_trigger r False],
                   runners := (runners w)[i := r\<lparr>pc := Sleeping\<rparr>]\<rparr>
            else w\<lparr>invocations := invocations w @ [call_trigger r True],
                   runners := (runners w)[i := r\<lparr>pc := Awaiting\<rparr>]\<rparr>)
      else w\<lparr>runners := (runners w)[i := r\<lparr>pc := Finished\<rparr>]\<rparr>)"

text \<open>
  What can happen to the task and its runners: a call of \<^verbatim>\<open>run\<close>, \<^verbatim>\<open>stop\<close> or
  \<^verbatim>\<open>update_delay\<close> by the program, or the event loop resuming runner \<open>i\<close> because it
  was newly created (\<open>Begin\<close>), because its sleep has completed (\<open>Sleep_done\<close>),
  because the awaited callback has returned (\<open>Trigger_returned\<close>) or because it has raised
  (\<open>Trigger_raised\<close>).
\<close>

datatype event =
    Run "pyval list" "(string \<times> pyval) list"
  | Stop
  | Update_delay int
  | Begin nat
  | Sleep_done nat
  | Trigger_returned nat
  | Trigger_raised nat

definition at_pc :: "'f world \<Rightarrow> nat \<Rightarrow> runner_pc \<Rightarrow> bool" where
  "at_pc w i p = (i < length (runners w) \<and> pc (runners w ! i) = p)"

definition set_pc :: "'f world \<Rightarrow> nat \<Rightarrow> runner_pc \<Rightarrow> 'f world" where
  "set_pc w i p = w\<lparr>runners := (runners w)[i := (runners w ! i)\<lparr>pc := p\<rparr>]\<rparr>"

text \<open>
  One event. An event of the loop for a runner that is not at the matching suspension
  point cannot happen and leaves the world as it is; a \<^verbatim>\<open>run\<close> that raises leaves it as
  it is as well. After the awaited callback has returned the runner goes to sleep
  without reading the flag.
\<close>

fun step :: "event \<Rightarrow> 'f world \<Rightarrow> 'f world" where
  "step (Run args kwargs) w = snd (run w args kwargs)"
| "step Stop w = stop w"
| "step (Update_delay d) w = w\<lparr>the_task := update_delay (the_task w) d\<rparr>"
| "step (Begin i) w = (if at_pc w i Scheduled then loop_head w i else w)"
| "step (Sleep_done i) w = (if at_pc w i Sleeping then loop_head w i else w)"
| "step (Trigger_returned i) w = (if at_pc w i Awaiting then set_pc w i Sleeping else w)"
| "step (Trigger_raised i) w = (if at_pc w i Awaiting then set_pc w i Failed else w)"

fun exec :: "event list \<Rightarrow> 'f world \<Rightarrow> 'f world" where
  "exec [] w = w"
| "exec (e # es) w = exec es (step e w)"

fun is_Run :: "event \<Rightarrow> bool" where
  "is_Run (Run _ _) = True"
| "is_Run _ = False"

text \<open>
  The decorator \<^verbatim>\<open>task\<close>. \<open>truthy\<close> is the truth value of an optional number in an
  \<^verbatim>\<open>if\<close>: \<^verbatim>\<open>None\<close> and zero are false. \<open>resolve_delay\<close> is the
  \<^verbatim>\<open>if s: ... elif m: ... elif h: ...\<close> chain; \<open>None\<close> means that no branch was taken and
  the local variable \<^verbatim>\<open>delay\<close> was never assigned.
\<close>

fun truthy :: "int option \<Rightarrow> bool" where
  "truthy None = False"
| "truthy (Some v) = (v \<noteq> 0)"

definition resolve_delay :: "int option \<Rightarrow> int option \<Rightarrow> int option \<Rightarrow> int option" where
  "resolve_delay s m h =
     (if truthy s then s
      else if truthy m then map_option (\<lambda>v. v * 60) m
      else if truthy h then map_option (\<lambda>v. v * 60 * 60) h
      else None)"

definition task ::
  "int option \<Rightarrow> int option \<Rightarrow> int option \<Rightarrow> bool \<Rightarrow> 'f \<Rightarrow> exception + 'f Task" where
  "task s m h wait_flag trg =
     (let delays = length (filter (\<lambda>item. item \<noteq> None) [s, m, h]) in
      if delays > 1 \<or> delays = 0
      then Inl (ValueError ''Only one delay field can be used for the decorator.'')
      else case resolve_delay s m h of
             None \<Rightarrow> Inl (UnboundLocalError ''delay'')
           | Some d \<Rightarrow>
               Inr \<lparr>trigger = trg, delay = d, wait_until_complete = wait_flag, is_running = False\<rparr>)"

text \<open>A freshly built task on an event loop that has no runner yet.\<close>

definition fresh_world :: "'f Task \<Rightarrow> 'f world" where
  "fresh_world t = \<lparr>the_task = t, runners = [], invocations = []\<rparr>"

section \<open>utils.py: \<open>create_timestamp\<close>\<close>

text \<open>
  A \<^verbatim>\<open>datetime\<close> is a reading of a calendar clock, here in microseconds counted from
  1970-01-01 00:00:00 on that clock (\<open>wall_us\<close>), together with its \<^verbatim>\<open>tzinfo\<close>: the
  offset from UTC in seconds of an aware value, \<open>None\<close> for a naive one. A
  \<^verbatim>\<open>timedelta\<close> is a number of microseconds.
\<close>

record datetime =
  wall_us :: int
  tzinfo :: "int option"

type_synonym timedelta = int

datatype dt_arg = DateTime datetime | TimeDelta timedelta

text \<open>
  What the function reads from its host: the current instant, in microseconds since the
  POSIX epoch, and the offset from UTC, in seconds, of the host's local time zone at a
  given local clock reading.
\<close>

record host =
  now_us :: int
  local_utcoffset :: "int \<Rightarrow> int"

text \<open>
  The three library operations the function uses, as the \<^verbatim>\<open>datetime\<close> module
  documents them:
  \<^item> \<^verbatim>\<open>datetime.utcnow()\<close> is the current UTC clock reading as a naive value;
  \<^item> adding a \<^verbatim>\<open>timedelta\<close> moves the clock reading and keeps \<^verbatim>\<open>tzinfo\<close>;
  \<^item> \<^verbatim>\<open>timestamp()\<close> takes a naive value to be local time, and subtracts the value's
    own offset for an aware one.
  The timestamp is kept in exact microseconds, where Python returns the \<^verbatim>\<open>float\<close>
  nearest to that number of seconds. For an instant less than \<open>2 ^ 34\<close> seconds from the
  epoch (until the year 2514) that \<^verbatim>\<open>float\<close> is less than a microsecond away from the
  exact value, so \<^verbatim>\<open>int\<close> of it is the exact value truncated, which is what
  \<open>int_seconds\<close> below computes. From \<open>2 ^ 34\<close> seconds on, the \<^verbatim>\<open>float\<close> of an instant
  with 999999 microseconds is the next whole second and the two differ: the model is
  used within the first range only, and the lemmas on \<open>create_timestamp\<close> are stated
  for it.
\<close>

definition utcnow :: "host \<Rightarrow> datetime" where
  "utcnow hst = \<lparr>wall_us = now_us hst, tzinfo = None\<rparr>"

definition dt_add :: "datetime \<Rightarrow> timedelta \<Rightarrow> datetime" where
  "dt_add d td = d\<lparr>wall_us := wall_us d + td\<rparr>"

definition timestamp_us :: "host \<Rightarrow> datetime \<Rightarrow> int" where
  "timestamp_us hst d =
     (case tzinfo d of
        None \<Rightarrow> wall_us d - 1000000 * local_utcoffset hst (wall_us d)
      | Some off \<Rightarrow> wall_us d - 1000000 * off)"

text \<open>\<^verbatim>\<open>int(x)\<close> of a number of seconds given in microseconds: truncation toward zero.\<close>

definition int_seconds :: "int \<Rightarrow> int" where
  "int_seconds us = (if 0 \<le> us then us div 1000000 else - ((- us) div 1000000))"

text \<open>The decimal text of an integer, as an f-string writes it.\<close>

definition digit_char :: "nat \<Rightarrow> char" where
  "digit_char d = ''0123456789'' ! d"

function str_nat :: "nat \<Rightarrow> string" where
  "str_nat n = (if n < 10 then [digit_char n] else str_nat (n div 10) @ [digit_char (n mod 10)])"
  by pat_completeness auto
termination
  by (relation "measure (\<lambda>n. n)") auto

declare str_nat.simps [simp del]

definition str_int :: "int \<Rightarrow> string" where
  "str_int i = (if i < 0 then CHR ''-'' # str_nat (nat (- i)) else str_nat (nat i))"

definition create_timestamp :: "host \<Rightarrow> dt_arg \<Rightarrow> string \<Rightarrow> string" where
  "create_timestamp hst dt style =
     (let d = (case dt of TimeDelta td \<Rightarrow> dt_add (utcnow hst) td | DateTime d0 \<Rightarrow> d0)
      in ''<t:'' @ str_int (int_seconds (timestamp_us hst d)) @ '':'' @ style @ ''>'')"

text \<open>
  What the documentation promises for a duration: the markup for the current UTC epoch
  second moved by the duration.
\<close>

definition utc_markup :: "host \<Rightarrow> timedelta \<Rightarrow> string \<Rightarrow> string" where
  "utc_markup hst td style = ''<t:'' @ str_int (int_seconds (now_us hst + td)) @ '':'' @ style @ ''>''"

section \<open>components/modals.py: \<open>TextInput\<close>\<close>

text \<open>
  \<^verbatim>\<open>ComponentType\<close> is declared in \<^verbatim>\<open>components/base.py\<close>, an integer enumeration;
  \<^verbatim>\<open>TextInputStyle\<close> is an \<^verbatim>\<open>IntFlag\<close> with the members \<^verbatim>\<open>SHORT = 1\<close> and
  \<^verbatim>\<open>PARAGRAPH = 2\<close>. A member of either is a wrapped integer, and \<^verbatim>\<open>int(x)\<close>
  unwraps it.
\<close>

datatype ComponentType = ComponentType int

datatype TextInputStyle = TextInputStyle int

definition SHORT :: TextInputStyle where
  "SHORT = TextInputStyle 1"

definition PARAGRAPH :: TextInputStyle where
  "PARAGRAPH = TextInputStyle 2"

fun int_of_type :: "ComponentType \<Rightarrow> int" where
  "int_of_type (ComponentType i) = i"

fun int_of_style :: "TextInputStyle \<Rightarrow> int" where
  "int_of_style (TextInputStyle i) = i"

record TextInput =
  ti_type :: ComponentType
  custom_id :: string
  label :: string
  style :: TextInputStyle
  min_length :: "int option"
  max_length :: "int option"
  required :: bool
  default_value :: "string option"
  placeholder :: "string option"

text \<open>
  The constructor called with \<^verbatim>\<open>custom_id\<close> and \<^verbatim>\<open>label\<close> only; every other field
  takes its default. \<open>text_input\<close> stands for \<^verbatim>\<open>ComponentType.TEXT_INPUT\<close>, whose value
  is fixed in \<^verbatim>\<open>components/base.py\<close>.
\<close>

definition TextInput_init :: "ComponentType \<Rightarrow> string \<Rightarrow> string \<Rightarrow> TextInput" where
  "TextInput_init text_input cid lbl =
     \<lparr>ti_type = text_input, custom_id = cid, label = lbl, style = SHORT,
      min_length = None, max_length = None, required = True,
      default_value = None, placeholder = None\<rparr>"

fun opt_int :: "int option \<Rightarrow> pyval" where
  "opt_int None = PyNone"
| "opt_int (Some i) = PyInt i"

fun opt_str :: "string option \<Rightarrow> pyval" where
  "opt_str None = PyNone"
| "opt_str (Some s) = PyStr s"

text \<open>The dictionary \<^verbatim>\<open>to_payload\<close> builds, as its items in insertion order.\<close>

definition to_payload :: "TextInput \<Rightarrow> (string \<times> pyval) list" where
  "to_payload self =
     [(''type'', PyInt (int_of_type (ti_type self))),
      (''custom_id'', PyStr (custom_id self)),
      (''label'', PyStr (label self)),
      (''style'', PyInt (int_of_style (style self))),
      (''min_length'', opt_int (min_length self)),
      (''max_length'', opt_int (max_length self)),
      (''required'', PyBool (required self)),
      (''value'', opt_str (default_value self)),
      (''placeholder'', opt_str (placeholder self))]"

text \<open>
  What \<^verbatim>\<open>run\<close> establishes and every later step of the loop keeps: each runner holds
  the positional arguments \<open>ps\<close> and no keyword arguments, and each call of the callback
  made so far was made with exactly these.
\<close>

definition forwards :: "pyval list \<Rightarrow> 'f world \<Rightarrow> bool" where
  "forwards ps w =
     (list_all (\<lambda>r. r_args r = ps \<and> r_kwargs r = []) (runners w)
      \<and> list_all (\<lambda>c. inv_args c = ps \<and> inv_kwargs c = []) (invocations w))"

section \<open>Example inputs\<close>

definition ping :: SlashCommand where
  "ping = \<lparr>name = ''ping''\<rparr>"

definition pong :: SlashCommand where
  "pong = \<lparr>name = ''pong''\<rparr>"

definition admin :: SlashGroup where
  "admin = \<lparr>group_name = ''admin''\<rparr>"

definition tools :: SlashGroup where
  "tools = \<lparr>group_name = ''tools''\<rparr>"

text \<open>A client on which the command \<open>ping\<close> and the group \<open>admin\<close> are registered.\<close>

definition busy_client :: CommandsClient where
  "busy_client = \<lparr>slash_commands = [''ping'' \<mapsto> ping], slash_groups = [''admin'' \<mapsto> admin],
                   prefix_type = None, debug_log = []\<rparr>"

text \<open>
  A task that waits for its callback, on an event loop with no runner yet, and the same
  task after \<^verbatim>\<open>run()\<close>, one complete call of the callback and the start of the first
  sleep.
\<close>

definition tick_task :: "string Task" where
  "tick_task = \<lparr>trigger = ''tick'', delay = 5, wait_until_complete = True, is_running = False\<rparr>"

definition idle_world :: "string world" where
  "idle_world = fresh_world tick_task"


definition running_world :: "string world" where
  "running_world = snd (run idle_world [] [])"


text \<open>
  A client that has not started, and collaborators: all well and the listen loop never
  returning; the token rejected when the bot's user is fetched; the token accepted there
  and an \<^verbatim>\<open>Unauthorized\<close> raised later from the listen loop; the socket failing before
  the \<^verbatim>\<open>try\<close> block with an \<^verbatim>\<open>Unauthorized\<close>; a network error from the fetch.
\<close>

definition fresh_client :: "(string, string) GatewayClient" where
  "fresh_client = \<lparr>client_id = 0, start_activity = None, start_status = None,
                    session_closed = False, dispatched = [], info_log = []\<rparr>"

definition bot_user :: User where
  "bot_user = \<lparr>user_id = 42, username = ''wyvern''\<rparr>"

definition all_well :: collaborators where
  "all_well = \<lparr>dispatch = (\<lambda>ev. None), get_socket_ready = Returns (),
                fetch_client_user = Returns bot_user, listen_gateway = Pending\<rparr>"


definition listen_unauthorized :: collaborators where
  "listen_unauthorized = all_well\<lparr>listen_gateway := Raises (Unauthorized ''401'')\<rparr>"






text \<open>
  A host whose local time zone is one hour ahead of UTC, at the instant 1700000000
  seconds after the epoch, and a host in UTC at the same instant.
\<close>

definition paris_host :: host where
  "paris_host = \<lparr>now_us = 1700000000000000, local_utcoffset = (\<lambda>wall. 3600)\<rparr>"

definition utc_host :: host where
  "utc_host = \<lparr>now_us = 1700000000000000, local_utcoffset = (\<lambda>wall. 0)\<rparr>"

section \<open>Registering slash commands and groups\<close>

lemma add_slash_command_taken:
  "slash_commands self (name command) = Some old \<Longrightarrow>
   add_slash_command self command =
     (Inl (CommandAlreadyExists (''A slash command named '' @ name command @ '' already exists.'')), self)"
  by (simp add: add_slash_command_def Let_def dom_def)

lemma add_slash_command_free:
  "slash_commands self (name command) = None \<Longrightarrow>
   add_slash_command self command =
     (Inr (), self\<lparr>debug_log := debug_log self @ [''Adding slash command '' @ name command @ '' to bot.''],
                    slash_commands := (slash_commands self)(name command \<mapsto> command)\<rparr>)"
  by (simp add: add_slash_command_def Let_def dom_def)

lemma add_slash_group_taken:
  "slash_groups self (group_name grp) = Some old \<Longrightarrow>
   add_slash_group self grp =
     (Inl (CommandAlreadyExists (''A slash command named '' @ group_name grp @ '' already exists.'')), self)"
  by (simp add: add_slash_group_def Let_def dom_def)

lemma add_slash_group_free:
  "slash_groups self (group_name grp) = None \<Longrightarrow>
   add_slash_group self grp =
     (Inr (), self\<lparr>debug_log := debug_log self @ [''Adding slash group '' @ group_name grp @ '' to bot.''],
                    slash_groups := (slash_groups self)(group_name grp \<mapsto> grp)\<rparr>)"
  by (simp add: add_slash_group_def Let_def dom_def)

text \<open>
  Claim C6. \<^verbatim>\<open>add_slash_command\<close> raises \<^verbatim>\<open>CommandAlreadyExists\<close>, from the call
  itself, when a command of the same name is in the registry, and \<^verbatim>\<open>add_slash_group\<close>
  does the same for groups. Two commands (two groups) with different names, neither of
  them registered before, are both accepted, and each is then found in the registry
  under its name.
\<close>

theorem registration_duplicates_and_distinct_names:
  "(slash_commands c (name x) = Some x0 \<longrightarrow>
      fst (add_slash_command c x)
        = Inl (CommandAlreadyExists (''A slash command named '' @ name x @ '' already exists.'')))
   \<and> (slash_groups c (group_name y) = Some y0 \<longrightarrow>
      fst (add_slash_group c y)
        = Inl (CommandAlreadyExists (''A slash command named '' @ group_name y @ '' already exists.'')))
   \<and> (name a \<noteq> name b \<and> slash_commands d (name a) = None \<and> slash_commands d (name b) = None \<longrightarrow>
      fst (add_slash_command d a) = Inr ()
      \<and> fst (add_slash_command (snd (add_slash_command d a)) b) = Inr ()
      \<and> slash_commands (snd (add_slash_command (snd (add_slash_command d a)) b)) (name a) = Some a
      \<and> slash_commands (snd (add_slash_command (snd (add_slash_command d a)) b)) (name b) = Some b)
   \<and> (group_name g \<noteq> group_name k \<and> slash_groups d (group_name g) = None
        \<and> slash_groups d (group_name k) = None \<longrightarrow>
      fst (add_slash_group d g) = Inr ()
      \<and> fst (add_slash_group (snd (add_slash_group d g)) k) = Inr ()
      \<and> slash_groups (snd (add_slash_group (snd (add_slash_group d g)) k)) (group_name g) = Some g
      \<and> slash_groups (snd (add_slash_group (snd (add_slash_group d g)) k)) (group_name k) = Some k)"
proof (intro conjI impI)
  assume "slash_commands c (name x) = Some x0"
  then show "fst (add_slash_command c x)
        = Inl (CommandAlreadyExists (''A slash command named '' @ name x @ '' already exists.''))"
    by (simp add: add_slash_command_taken)
next
  assume "slash_groups c (group_name y) = Some y0"
  then show "fst (add_slash_group c y)
        = Inl (CommandAlreadyExists (''A slash command named '' @ group_name y @ '' already exists.''))"
    by (simp add: add_slash_group_taken)
next
  assume h: "name a \<noteq> name b \<and> slash_commands d (name a) = None \<and> slash_commands d (name b) = None"
  define d1 where "d1 = snd (add_slash_command d a)"
  have reg1: "slash_commands d1 = (slash_commands d)(name a \<mapsto> a)"
    using h by (simp add: d1_def add_slash_command_free)
  have free: "slash_commands d1 (name b) = None"
    using h by (auto simp: reg1)
  have reg2: "slash_commands (snd (add_slash_command d1 b)) = (slash_commands d1)(name b \<mapsto> b)"
    by (simp add: add_slash_command_free [OF free])
  show "fst (add_slash_command d a) = Inr ()"
    using h by (simp add: add_slash_command_free)
  show "fst (add_slash_command (snd (add_slash_command d a)) b) = Inr ()"
    using free by (simp add: add_slash_command_free d1_def [symmetric])
  show "slash_commands (snd (add_slash_command (snd (add_slash_command d a)) b)) (name a) = Some a"
    using h by (auto simp: d1_def [symmetric] reg2 reg1)
  show "slash_commands (snd (add_slash_command (snd (add_slash_command d a)) b)) (name b) = Some b"
    by (simp add: d1_def [symmetric] reg2)
next
  assume h: "group_name g \<noteq> group_name k \<and> slash_groups d (group_name g) = None
        \<and> slash_groups d (group_name k) = None"
  define d1 where "d1 = snd (add_slash_group d g)"
  have reg1: "slash_groups d1 = (slash_groups d)(group_name g \<mapsto> g)"
    using h by (simp add: d1_def add_slash_group_free)
  have free: "slash_groups d1 (group_name k) = None"
    using h by (auto simp: reg1)
  have reg2: "slash_groups (snd (add_slash_group d1 k)) = (slash_groups d1)(group_name k \<mapsto> k)"
    by (simp add: add_slash_group_free [OF free])
  show "fst (add_slash_group d g) = Inr ()"
    using h by (simp add: add_slash_group_free)
  show "fst (add_slash_group (snd (add_slash_group d g)) k) = Inr ()"
    using free by (simp add: add_slash_group_free d1_def [symmetric])
  show "slash_groups (snd (add_slash_group (snd (add_slash_group d g)) k)) (group_name g) = Some g"
    using h by (auto simp: d1_def [symmetric] reg2 reg1)
  show "slash_groups (snd (add_slash_group (snd (add_slash_group d g)) k)) (group_name k) = Some k"
    by (simp add: d1_def [symmetric] reg2)
qed

theorem registration_duplicates_and_distinct_names_witness:
  "slash_commands busy_client (name ping) = Some ping
   \<and> fst (add_slash_command busy_client ping)
        = Inl (CommandAlreadyExists ''A slash command named ping already exists.'')
   \<and> slash_groups busy_client (group_name admin) = Some admin
   \<and> fst (add_slash_group busy_client admin)
        = Inl (CommandAlreadyExists ''A slash command named admin already exists.'')
   \<and> name ping \<noteq> name pong \<and> slash_commands new_client (name ping) = None
   \<and> slash_commands new_client (name pong) = None
   \<and> slash_commands (snd (add_slash_command (snd (add_slash_command new_client ping)) pong)) ''ping'' = Some ping
   \<and> slash_commands (snd (add_slash_command (snd (add_slash_command new_client ping)) pong)) ''pong'' = Some pong
   \<and> group_name admin \<noteq> group_name tools \<and> slash_groups new_client (group_name admin) = None
   \<and> slash_groups new_client (group_name tools) = None
   \<and> slash_groups (snd (add_slash_group (snd (add_slash_group new_client admin)) tools)) ''admin'' = Some admin
   \<and> slash_groups (snd (add_slash_group (snd (add_slash_group new_client admin)) tools)) ''tools'' = Some tools"
  using registration_duplicates_and_distinct_names
    [of busy_client ping ping admin admin ping pong new_client admin tools]
  by (simp add: busy_client_def new_client_def ping_def pong_def admin_def tools_def)

text \<open>
  Claim C10. A call of \<^verbatim>\<open>add_slash_command\<close> or \<^verbatim>\<open>add_slash_group\<close> that raises
  leaves the client, and so the registry, exactly as it was before the call.
\<close>

theorem failed_registration_leaves_client:
  "(fst (add_slash_command c x) = Inl e \<longrightarrow> snd (add_slash_command c x) = c)
   \<and> (fst (add_slash_group c' y) = Inl e' \<longrightarrow> snd (add_slash_group c' y) = c')"
  by (simp add: add_slash_command_def add_slash_group_def Let_def)

theorem failed_registration_leaves_client_witness:
  "fst (add_slash_command busy_client ping)
      = Inl (CommandAlreadyExists ''A slash command named ping already exists.'')
   \<and> slash_commands (snd (add_slash_command busy_client ping)) = slash_commands busy_client
   \<and> fst (add_slash_group busy_client admin)
      = Inl (CommandAlreadyExists ''A slash command named admin already exists.'')
   \<and> slash_groups (snd (add_slash_group busy_client admin)) = slash_groups busy_client"
proof -
  have c: "fst (add_slash_command busy_client ping)
      = Inl (CommandAlreadyExists ''A slash command named ping already exists.'')"
    by (simp add: add_slash_command_def busy_client_def ping_def Let_def)
  have g: "fst (add_slash_group busy_client admin)
      = Inl (CommandAlreadyExists ''A slash command named admin already exists.'')"
    by (simp add: add_slash_group_def busy_client_def admin_def Let_def)
  from failed_registration_leaves_client
    [of busy_client ping "CommandAlreadyExists ''A slash command named ping already exists.''"
        busy_client admin "CommandAlreadyExists ''A slash command named admin already exists.''"]
  show ?thesis using c g by simp
qed

section \<open>Starting the client\<close>

lemma start_Raises_cases:
  "fst (start env a s c) = Raises e \<Longrightarrow>
   (dispatch env STARTING = Some e \<and> session_closed (snd (start env a s c)) = session_closed c)
   \<or> (dispatch env STARTING = None \<and> get_socket_ready env = Raises e
       \<and> session_closed (snd (start env a s c)) = session_closed c)
   \<or> (reaches_try env
       \<and> (fetch_client_user env = Raises e \<or> dispatch env STARTED = Some e
            \<or> listen_gateway env = Raises e)
       \<and> session_closed (snd (start env a s c)) = (session_closed c \<or> is_Unauthorized e))"
  by (auto simp: start_def start_guarded_def except_Unauthorized_def reaches_try_def Let_def
      split: awaited.splits option.splits if_splits)


text \<open>
  The \<^verbatim>\<open>except\<close> clause guards the whole \<^verbatim>\<open>try\<close> block: an \<^verbatim>\<open>Unauthorized\<close> raised by
  the listen loop after the user has been fetched closes the session as well.
\<close>

lemma start_later_Unauthorized_closes_session:
  "fetch_client_user listen_unauthorized = Returns bot_user
   \<and> listen_gateway listen_unauthorized = Raises (Unauthorized ''401'')
   \<and> fst (start listen_unauthorized None None fresh_client) = Raises (Unauthorized ''401'')
   \<and> \<not> session_closed fresh_client
   \<and> session_closed (snd (start listen_unauthorized None None fresh_client))"
  by (simp add: start_def start_guarded_def except_Unauthorized_def listen_unauthorized_def
      all_well_def fresh_client_def Let_def)



section \<open>The task: \<open>run\<close>, \<open>stop\<close> and the runner\<close>

text \<open>
  Claim C8. The state of a task is its flag \<^verbatim>\<open>is_running\<close>: idle or running. \<^verbatim>\<open>run\<close>
  on an idle task returns and leaves it running; \<^verbatim>\<open>run\<close> on a running task raises
  \<^verbatim>\<open>Exception("The task is already running.")\<close> and changes nothing, so no second runner
  is created; after \<^verbatim>\<open>stop\<close> the flag is false.
\<close>

theorem task_run_stop_states:
  "(\<not> is_running (the_task w) \<longrightarrow>
      fst (run w args kwargs) = Inr () \<and> is_running (the_task (snd (run w args kwargs))))
   \<and> (is_running (the_task v) \<longrightarrow>
      run v args' kwargs' = (Inl (PyException ''The task is already running.''), v))
   \<and> \<not> is_running (the_task (stop u))"
  by (simp add: run_def stop_def)

theorem task_run_stop_states_witness:
  "\<not> is_running (the_task idle_world)
   \<and> fst (run idle_world [] []) = Inr ()
   \<and> is_running (the_task (snd (run idle_world [] [])))
   \<and> is_running (the_task running_world)
   \<and> run running_world [] [] = (Inl (PyException ''The task is already running.''), running_world)
   \<and> \<not> is_running (the_task (stop running_world))"
proof -
  have a: "\<not> is_running (the_task idle_world)"
    by (simp add: idle_world_def fresh_world_def tick_task_def)
  have b: "is_running (the_task running_world)"
    by (simp add: running_world_def run_def idle_world_def fresh_world_def tick_task_def)
  from task_run_stop_states [of idle_world "[]" "[]" running_world "[]" "[]" running_world]
  show ?thesis using a b by simp
qed

subsection \<open>What the runner passes to the callback\<close>

lemma list_all_update:
  "list_all P xs \<Longrightarrow> P x \<Longrightarrow> list_all P (xs[i := x])"
  by (induction xs arbitrary: i) (auto split: nat.splits)

lemma runners_update:
  "list_all (\<lambda>r. r_args r = ps \<and> r_kwargs r = []) rs \<Longrightarrow> i < length rs \<Longrightarrow>
   list_all (\<lambda>r. r_args r = ps \<and> r_kwargs r = []) (rs[i := (rs ! i)\<lparr>pc := p\<rparr>])"
  by (rule list_all_update) (simp_all add: list_all_length)

lemma runner_at:
  "list_all (\<lambda>r. r_args r = ps \<and> r_kwargs r = []) rs \<Longrightarrow> i < length rs \<Longrightarrow>
   r_args (rs ! i) = ps \<and> r_kwargs (rs ! i) = []"
  by (simp add: list_all_length)

lemma forwards_loop_head:
  assumes "forwards ps w" and "i < length (runners w)"
  shows "forwards ps (loop_head w i)"
proof -
  have rs: "list_all (\<lambda>r. r_args r = ps \<and> r_kwargs r = []) (runners w)"
    and cs: "list_all (\<lambda>c. inv_args c = ps \<and> inv_kwargs c = []) (invocations w)"
    using assms(1) by (simp_all add: forwards_def)
  have at: "r_args (runners w ! i) = ps" "r_kwargs (runners w ! i) = []"
    using runner_at [OF rs assms(2)] by simp_all
  have up: "\<And>p. list_all (\<lambda>r. r_args r = ps \<and> r_kwargs r = [])
      ((runners w)[i := (runners w ! i)\<lparr>pc := p\<rparr>])"
    by (rule runners_update [OF rs assms(2)])
  show ?thesis
    by (simp add: forwards_def loop_head_def Let_def call_trigger_def at up rs cs)
qed

lemma forwards_set_pc:
  "forwards ps w \<Longrightarrow> i < length (runners w) \<Longrightarrow> forwards ps (set_pc w i p)"
  by (simp add: forwards_def set_pc_def runners_update)

lemma forwards_step:
  "forwards ps w \<Longrightarrow> \<not> is_Run e \<Longrightarrow> forwards ps (step e w)"
proof (cases e)
  case (Run a k)
  assume "\<not> is_Run e"
  with Run show ?thesis by simp
next
  case Stop
  assume "forwards ps w"
  with Stop show ?thesis by (simp add: forwards_def stop_def)
next
  case (Update_delay d)
  assume "forwards ps w"
  with Update_delay show ?thesis by (simp add: forwards_def)
next
  case (Begin i)
  assume "forwards ps w"
  with Begin show ?thesis by (simp add: forwards_loop_head at_pc_def)
next
  case (Sleep_done i)
  assume "forwards ps w"
  with Sleep_done show ?thesis by (simp add: forwards_loop_head at_pc_def)
next
  case (Trigger_returned i)
  assume "forwards ps w"
  with Trigger_returned show ?thesis by (simp add: forwards_set_pc at_pc_def)
next
  case (Trigger_raised i)
  assume "forwards ps w"
  with Trigger_raised show ?thesis by (simp add: forwards_set_pc at_pc_def)
qed

lemma forwards_exec:
  "forwards ps w \<Longrightarrow> list_all (\<lambda>e. \<not> is_Run e) es \<Longrightarrow> forwards ps (exec es w)"
  by (induction es arbitrary: w) (simp_all add: forwards_step)

lemma forwards_run:
  "runners w = [] \<Longrightarrow> invocations w = [] \<Longrightarrow> forwards (args @ star kwargs) (snd (run w args kwargs))"
  by (simp add: forwards_def run_def new_runner_def)

lemma invocations_loop_head:
  "is_running (the_task w) \<Longrightarrow>
   invocations (loop_head w i)
     = invocations w @ [call_trigger (runners w ! i) (wait_until_complete (the_task w))]"
  by (simp add: loop_head_def Let_def)

lemma run_idle:
  "\<not> is_running (the_task w) \<Longrightarrow>
   is_running (the_task (snd (run w a k)))
   \<and> wait_until_complete (the_task (snd (run w a k))) = wait_until_complete (the_task w)
   \<and> runners (snd (run w a k)) = runners w @ [new_runner (a @ star k) []]
   \<and> invocations (snd (run w a k)) = invocations w"
  by (simp add: run_def)

text \<open>
  Claim C9. After \<^verbatim>\<open>run(*args, **kwargs)\<close> on a task with no runner yet, whatever the
  event loop and the program do next (short of another \<^verbatim>\<open>run\<close>), every call of the
  callback has, as positional arguments, \<open>args\<close> followed by the keys of \<open>kwargs\<close>, and
  has no keyword arguments. The first step of the runner of an idle task makes such a
  call.
\<close>

theorem run_passes_kwargs_keys_positionally:
  "(runners w = [] \<and> invocations w = [] \<and> list_all (\<lambda>e. \<not> is_Run e) es \<longrightarrow>
      list_all (\<lambda>c. inv_args c = args @ star kwargs \<and> inv_kwargs c = [])
        (invocations (exec es (snd (run w args kwargs)))))
   \<and> (runners v = [] \<and> invocations v = [] \<and> \<not> is_running (the_task v) \<longrightarrow>
      invocations (exec [Begin 0] (snd (run v args' kwargs')))
        = [\<lparr>inv_args = args' @ star kwargs', inv_kwargs = [],
             inv_awaited = wait_until_complete (the_task v)\<rparr>])"
proof (intro conjI impI)
  assume h: "runners w = [] \<and> invocations w = [] \<and> list_all (\<lambda>e. \<not> is_Run e) es"
  then have "forwards (args @ star kwargs) (snd (run w args kwargs))"
    by (simp add: forwards_run)
  with h have "forwards (args @ star kwargs) (exec es (snd (run w args kwargs)))"
    by (simp add: forwards_exec)
  then show "list_all (\<lambda>c. inv_args c = args @ star kwargs \<and> inv_kwargs c = [])
        (invocations (exec es (snd (run w args kwargs))))"
    by (simp add: forwards_def)
next
  assume h: "runners v = [] \<and> invocations v = [] \<and> \<not> is_running (the_task v)"
  define v1 where "v1 = snd (run v args' kwargs')"
  have v1: "is_running (the_task v1)"
    "wait_until_complete (the_task v1) = wait_until_complete (the_task v)"
    "runners v1 = [new_runner (args' @ star kwargs') []]"
    "invocations v1 = []"
    using h run_idle [of v args' kwargs'] by (simp_all add: v1_def)
  have "at_pc v1 0 Scheduled"
    by (simp add: at_pc_def v1 new_runner_def)
  then have "invocations (exec [Begin 0] v1) = invocations (loop_head v1 0)"
    by simp
  also have "\<dots> = [call_trigger (new_runner (args' @ star kwargs') [])
      (wait_until_complete (the_task v))]"
    by (simp add: invocations_loop_head v1)
  finally have fin: "invocations (exec [Begin 0] v1)
      = [call_trigger (new_runner (args' @ star kwargs') []) (wait_until_complete (the_task v))]" .
  have "invocations (exec [Begin 0] v1)
        = [\<lparr>inv_args = args' @ star kwargs', inv_kwargs = [],
             inv_awaited = wait_until_complete (the_task v)\<rparr>]"
    unfolding fin by (simp add: call_trigger_def new_runner_def)
  then show "invocations (exec [Begin 0] (snd (run v args' kwargs')))
        = [\<lparr>inv_args = args' @ star kwargs', inv_kwargs = [],
             inv_awaited = wait_until_complete (the_task v)\<rparr>]"
    unfolding v1_def .
qed

theorem run_passes_kwargs_keys_positionally_witness:
  "runners idle_world = [] \<and> invocations idle_world = []
   \<and> \<not> is_running (the_task idle_world)
   \<and> list_all (\<lambda>e. \<not> is_Run e) [Begin 0, Trigger_returned 0, Sleep_done 0]
   \<and> invocations (exec [Begin 0, Trigger_returned 0, Sleep_done 0]
        (snd (run idle_world [PyInt 1] [(''a'', PyInt 2), (''b'', PyNone)])))
      = [\<lparr>inv_args = [PyInt 1, PyStr ''a'', PyStr ''b''], inv_kwargs = [], inv_awaited = True\<rparr>,
         \<lparr>inv_args = [PyInt 1, PyStr ''a'', PyStr ''b''], inv_kwargs = [], inv_awaited = True\<rparr>]
   \<and> list_all (\<lambda>c. inv_args c = [PyInt 1, PyStr ''a'', PyStr ''b''] \<and> inv_kwargs c = [])
        (invocations (exec [Begin 0, Trigger_returned 0, Sleep_done 0]
          (snd (run idle_world [PyInt 1] [(''a'', PyInt 2), (''b'', PyNone)]))))
   \<and> invocations (exec [Begin 0] (snd (run idle_world [PyInt 1] [(''a'', PyInt 2), (''b'', PyNone)])))
      = [\<lparr>inv_args = [PyInt 1, PyStr ''a'', PyStr ''b''], inv_kwargs = [], inv_awaited = True\<rparr>]"
  using run_passes_kwargs_keys_positionally
    [of idle_world "[Begin 0, Trigger_returned 0, Sleep_done 0]" "[PyInt 1]"
        "[(''a'', PyInt 2), (''b'', PyNone)]" idle_world "[PyInt 1]"
        "[(''a'', PyInt 2), (''b'', PyNone)]"]
  by (simp add: idle_world_def fresh_world_def tick_task_def star_def run_def new_runner_def
      at_pc_def loop_head_def call_trigger_def set_pc_def Let_def)

subsection \<open>When \<open>stop\<close> takes effect\<close>




section \<open>The payload of a text input\<close>

text \<open>
  Claim C3. For every \<^verbatim>\<open>TextInput\<close>, \<^verbatim>\<open>to_payload()\<close> has exactly the keys
  \<^verbatim>\<open>type\<close>, \<^verbatim>\<open>custom_id\<close>, \<^verbatim>\<open>label\<close>, \<^verbatim>\<open>style\<close>, \<^verbatim>\<open>min_length\<close>,
  \<^verbatim>\<open>max_length\<close>, \<^verbatim>\<open>required\<close>, \<^verbatim>\<open>value\<close> and \<^verbatim>\<open>placeholder\<close>; \<^verbatim>\<open>type\<close> and
  \<^verbatim>\<open>style\<close> are plain integers; the default value is under \<^verbatim>\<open>value\<close> and there is no
  key \<^verbatim>\<open>default_value\<close>. Built from \<^verbatim>\<open>custom_id\<close> and \<^verbatim>\<open>label\<close> alone, the payload
  has the text-input type code, style 1, \<^verbatim>\<open>required\<close> true and \<^verbatim>\<open>value\<close> \<^verbatim>\<open>None\<close>.
\<close>

theorem to_payload_keys_and_defaults:
  "map fst (to_payload t)
     = [''type'', ''custom_id'', ''label'', ''style'', ''min_length'', ''max_length'',
        ''required'', ''value'', ''placeholder'']
   \<and> map_of (to_payload t) ''type'' = Some (PyInt (int_of_type (ti_type t)))
   \<and> map_of (to_payload t) ''style'' = Some (PyInt (int_of_style (style t)))
   \<and> map_of (to_payload t) ''value'' = Some (opt_str (default_value t))
   \<and> map_of (to_payload t) ''default_value'' = None
   \<and> map_of (to_payload (TextInput_init ty cid lbl)) ''type'' = Some (PyInt (int_of_type ty))
   \<and> map_of (to_payload (TextInput_init ty cid lbl)) ''style'' = Some (PyInt 1)
   \<and> map_of (to_payload (TextInput_init ty cid lbl)) ''required'' = Some (PyBool True)
   \<and> map_of (to_payload (TextInput_init ty cid lbl)) ''value'' = Some PyNone"
  by (simp add: to_payload_def TextInput_init_def SHORT_def)

section \<open>The task builder\<close>

text \<open>
  What holds of the builder: it raises the \<^verbatim>\<open>ValueError\<close> exactly when the number of
  delays supplied is not one, and one delay that is not zero gives a task with that
  many seconds, sixty times that many for minutes, 3600 times that many for hours.
\<close>

lemma task_ValueError_iff:
  "task s m h wait_flag trg = Inl (ValueError ''Only one delay field can be used for the decorator.'')
   \<longleftrightarrow> length (filter (\<lambda>item. item \<noteq> None) [s, m, h]) \<noteq> 1"
  by (auto simp: task_def Let_def split: option.splits)

lemma task_one_nonzero_delay:
  "v \<noteq> 0 \<Longrightarrow>
   task (Some v) None None wait_flag trg
     = Inr \<lparr>trigger = trg, delay = v, wait_until_complete = wait_flag, is_running = False\<rparr>
   \<and> task None (Some v) None wait_flag trg
     = Inr \<lparr>trigger = trg, delay = v * 60, wait_until_complete = wait_flag, is_running = False\<rparr>
   \<and> task None None (Some v) wait_flag trg
     = Inr \<lparr>trigger = trg, delay = v * 3600, wait_until_complete = wait_flag, is_running = False\<rparr>"
  by (simp add: task_def resolve_delay_def)

lemma task_two_minutes:
  "task None (Some 2) None True trg
     = Inr \<lparr>trigger = trg, delay = 120, wait_until_complete = True, is_running = False\<rparr>"
  by (simp add: task_def resolve_delay_def)

text \<open>
  Claim C4, at the input where the code departs from it. With exactly one delay supplied
  and that delay zero, the count of supplied delays is one, so no \<^verbatim>\<open>ValueError\<close> is
  raised; but the \<^verbatim>\<open>if s: ... elif m: ... elif h: ...\<close> chain tests truth values, takes
  no branch, and the builder fails with \<^verbatim>\<open>UnboundLocalError\<close> where the claim has a
  \<^verbatim>\<open>Task\<close> with delay 0.
\<close>

theorem task_zero_delay_unbound:
  "task (Some 0) None None wait_flag trg = Inl (UnboundLocalError ''delay'')
   \<and> task None (Some 0) None wait_flag trg = Inl (UnboundLocalError ''delay'')
   \<and> task None None (Some 0) wait_flag trg = Inl (UnboundLocalError ''delay'')"
  by (simp add: task_def resolve_delay_def)

section \<open>Setting the prefix\<close>

text \<open>
  What holds of \<^verbatim>\<open>set_prefix\<close>: for a string, a list, a tuple or a set it records the
  class of the argument and returns the client.
\<close>

lemma set_prefix_str_and_collections:
  "set_prefix self (StrPrefix p)
     = (Inr (self\<lparr>prefix_type := Some T_str\<rparr>), self\<lparr>prefix_type := Some T_str\<rparr>)
   \<and> set_prefix self (ListPrefix ps)
     = (Inr (self\<lparr>prefix_type := Some T_list\<rparr>), self\<lparr>prefix_type := Some T_list\<rparr>)
   \<and> set_prefix self (TuplePrefix ps)
     = (Inr (self\<lparr>prefix_type := Some T_tuple\<rparr>), self\<lparr>prefix_type := Some T_tuple\<rparr>)
   \<and> set_prefix self (SetPrefix qs)
     = (Inr (self\<lparr>prefix_type := Some T_set\<rparr>), self\<lparr>prefix_type := Some T_set\<rparr>)"
  by (simp add: set_prefix_def isinstance_named_def load_name_def clients_globals_def
      builtin_classes_def assign_prefix_type_def Let_def)

text \<open>
  Claim C5, at the input where the code departs from it. For a callable the first four
  \<^verbatim>\<open>isinstance\<close> tests are false and the fifth loads the name \<^verbatim>\<open>function\<close>, which
  neither the module nor the builtins bind: the call raises \<^verbatim>\<open>NameError\<close>, records no
  prefix kind and returns nothing.
\<close>

theorem set_prefix_callable_NameError:
  "set_prefix self (Callable f) = (Inl (NameError ''function''), self)"
  by (simp add: set_prefix_def isinstance_named_def load_name_def clients_globals_def
      builtin_classes_def)

section \<open>Timestamps\<close>

text \<open>
  What holds of \<^verbatim>\<open>create_timestamp\<close>, for instants less than \<open>2 ^ 34\<close> seconds from the
  epoch, where the whole seconds of the \<^verbatim>\<open>float\<close> that \<^verbatim>\<open>timestamp()\<close> returns are those
  of the exact value: an aware \<^verbatim>\<open>datetime\<close> at epoch second \<open>E\<close> (not before the epoch)
  gives \<^verbatim>\<open><t:E:style>\<close> with the style passed through unchecked, and on a host whose
  local time zone is UTC a duration gives the markup for the current UTC instant moved by
  the duration.
\<close>

lemma int_seconds_nonneg:
  "0 \<le> E \<Longrightarrow> 0 \<le> f \<Longrightarrow> f < 1000000 \<Longrightarrow> int_seconds (E * 1000000 + f) = E"
  by (simp add: int_seconds_def)

lemma create_timestamp_aware_datetime:
  "0 \<le> E \<Longrightarrow> E < 2 ^ 34 \<Longrightarrow> 0 \<le> f \<Longrightarrow> f < 1000000 \<Longrightarrow>
   create_timestamp hst (DateTime \<lparr>wall_us = (E + off) * 1000000 + f, tzinfo = Some off\<rparr>) sty
     = ''<t:'' @ str_int E @ '':'' @ sty @ ''>''"
proof -
  assume a: "0 \<le> E" "0 \<le> f" "f < 1000000"
  have "(E + off) * 1000000 + f - 1000000 * off = E * 1000000 + f"
    by (simp add: algebra_simps)
  then show ?thesis
    using a by (simp add: create_timestamp_def timestamp_us_def int_seconds_nonneg)
qed

lemma create_timestamp_timedelta_in_utc:
  "local_utcoffset hst = (\<lambda>wall. 0) \<Longrightarrow>
   \<bar>now_us hst + td\<bar> < 2 ^ 34 * 1000000 \<Longrightarrow>
   create_timestamp hst (TimeDelta td) sty = utc_markup hst td sty"
  by (simp add: create_timestamp_def utc_markup_def utcnow_def dt_add_def timestamp_us_def)

text \<open>
  Claim C2, at the input where the code departs from it. \<^verbatim>\<open>datetime.utcnow()\<close> is naive,
  and \<^verbatim>\<open>timestamp()\<close> reads a naive value as local time: on a host one hour ahead of
  UTC, at epoch second 1700000000, a duration of zero gives the epoch second 1699996400,
  where the claim has 1700000000.
\<close>

theorem create_timestamp_timedelta_local_zone:
  "create_timestamp paris_host (TimeDelta 0) ''t'' = ''<t:1699996400:t>''
   \<and> utc_markup paris_host 0 ''t'' = ''<t:1700000000:t>''
   \<and> create_timestamp paris_host (TimeDelta 0) ''t'' \<noteq> utc_markup paris_host 0 ''t''"
  by (simp add: create_timestamp_def utc_markup_def paris_host_def utcnow_def dt_add_def
      timestamp_us_def int_seconds_def str_int_def str_nat.simps digit_char_def)

end
